theory Spec2Isabelle
  imports Main "HOL-Library.Word"
begin

section \<open>Machine types\<close>

text \<open>
  \<^verbatim>\<open>size_t\<close> is taken as a 64-bit unsigned integer (\<open>+\<close> wraps around), \<^verbatim>\<open>int\<close> as a
  32-bit integer, \<^verbatim>\<open>uint8_t\<close> as an 8-bit one. A \<^verbatim>\<open>std::string\<close> and a NUL-terminated
  \<^verbatim>\<open>const char*\<close> that is not null are both a \<open>string\<close>.
\<close>

type_synonym size_t = "64 word"
type_synonym c_int = "32 word"
type_synonym uint8_t = "8 word"

section \<open>onnxsim.h: the folding record\<close>

record FoldedOp =
  op_type :: string
  op_name :: string
  inputs :: "string list"
  outputs :: "string list"
  success :: bool
  error_msg :: string

record FoldingRecord =
  folded_ops :: "FoldedOp list"
  total_attempted :: size_t
  total_succeeded :: size_t
  total_failed :: size_t

text \<open>The constructor \<^verbatim>\<open>FoldingRecord()\<close>: an empty vector and three zero counters.\<close>

definition FoldingRecord_new :: FoldingRecord where
  "FoldingRecord_new =
     \<lparr>folded_ops = [], total_attempted = 0, total_succeeded = 0, total_failed = 0\<rparr>"

text \<open>
  \<^verbatim>\<open>RecordFold\<close>: \<^verbatim>\<open>push_back\<close>, then \<^verbatim>\<open>total_attempted++\<close>, then one of
  \<^verbatim>\<open>total_succeeded++\<close> and \<^verbatim>\<open>total_failed++\<close>.
\<close>

definition RecordFold :: "FoldedOp \<Rightarrow> FoldingRecord \<Rightarrow> FoldingRecord" where
  "RecordFold op r =
     (let r1 = r\<lparr>folded_ops := folded_ops r @ [op]\<rparr>;
          r2 = r1\<lparr>total_attempted := total_attempted r1 + 1\<rparr>
      in if success op
         then r2\<lparr>total_succeeded := total_succeeded r2 + 1\<rparr>
         else r2\<lparr>total_failed := total_failed r2 + 1\<rparr>)"

definition Clear :: "FoldingRecord \<Rightarrow> FoldingRecord" where
  "Clear r =
     r\<lparr>folded_ops := [], total_attempted := 0, total_succeeded := 0, total_failed := 0\<rparr>"

text \<open>
  A sequence of calls on one record, run from left to right. Nothing else in the header
  writes the record's fields.
\<close>

datatype record_call = CallRecordFold FoldedOp | CallClear

fun apply_record_call :: "record_call \<Rightarrow> FoldingRecord \<Rightarrow> FoldingRecord" where
  "apply_record_call (CallRecordFold op) r = RecordFold op r"
| "apply_record_call CallClear r = Clear r"

fun run_record_calls :: "record_call list \<Rightarrow> FoldingRecord \<Rightarrow> FoldingRecord" where
  "run_record_calls [] r = r"
| "run_record_calls (c # cs) r = run_record_calls cs (apply_record_call c r)"

text \<open>
  The counters as functions of the entries: each counter is the machine image of the
  number of entries it counts.
\<close>

definition counters_match :: "FoldingRecord \<Rightarrow> bool" where
  "counters_match r =
     (total_attempted r = of_nat (length (folded_ops r)) \<and>
      total_succeeded r = of_nat (length (filter success (folded_ops r))) \<and>
      total_failed r = of_nat (length (filter (\<lambda>op. \<not> success op) (folded_ops r))))"

section \<open>onnxsim.h: the executor registry\<close>

text \<open>
  A C++ exception in flight: an object derived from \<^verbatim>\<open>std::exception\<close>, with the text
  its \<^verbatim>\<open>what()\<close> returns, or an object of any other type. \<^verbatim>\<open>std::runtime_error\<close> is
  derived from \<^verbatim>\<open>std::exception\<close>.
\<close>

datatype exn = StdException string | OtherException

text \<open>
  A \<^verbatim>\<open>ModelExecutor\<close> is its virtual method \<^verbatim>\<open>_Run\<close>. The method is supplied by the
  host, so it may throw and may have effects of its own: it maps the host's state \<open>'x\<close>
  to a result and a new state. The static member \<^verbatim>\<open>instance_\<close> is a shared pointer,
  \<open>None\<close> when null.
\<close>

type_synonym ('m, 't, 'x) ModelExecutor = "'m \<Rightarrow> 't list \<Rightarrow> 'x \<Rightarrow> (exn + 't list) \<times> 'x"

definition set_instance ::
  "('m, 't, 'x) ModelExecutor option \<Rightarrow> ('m, 't, 'x) ModelExecutor option \<Rightarrow>
   ('m, 't, 'x) ModelExecutor option" where
  "set_instance inst instance_ptr = inst"

definition Run ::
  "('m, 't, 'x) ModelExecutor option \<Rightarrow> 'm \<Rightarrow> 't list \<Rightarrow> 'x \<Rightarrow> (exn + 't list) \<times> 'x" where
  "Run instance_ptr model ins x =
     (case instance_ptr of
        None \<Rightarrow> (Inl (StdException ''empty instance''), x)
      | Some executor \<Rightarrow> executor model ins x)"

section \<open>onnxsim\_ffi.h and onnxsim\_ffi.cc: the C boundary\<close>

datatype onnxsim_error_t =
    ONNXSIM_SUCCESS
  | ONNXSIM_ERROR_INVALID_ARGUMENT
  | ONNXSIM_ERROR_PARSE_FAILED
  | ONNXSIM_ERROR_SERIALIZE_FAILED
  | ONNXSIM_ERROR_SIMPLIFICATION_FAILED
  | ONNXSIM_ERROR_INTERNAL

type_synonym thread_id = nat
type_synonym addr = nat

text \<open>
  What the boundary calls and does not define: the protobuf codec, the pipeline
  (\<^verbatim>\<open>Simplify\<close>, \<^verbatim>\<open>SimplifyPath\<close>) and \<^verbatim>\<open>std::malloc\<close>. Each is a parameter. \<open>'m\<close> is
  \<^verbatim>\<open>onnx::ModelProto\<close>. A call that can throw returns \<open>Inl\<close> of the exception. The codec's
  two functions return a \<^verbatim>\<open>bool\<close>: \<open>Inr None\<close> is \<^verbatim>\<open>false\<close>, \<open>Inr (Some v)\<close> is \<^verbatim>\<open>true\<close>
  with the value produced. The pipeline reads and writes the global folding record and
  whatever else it reaches (files, the registered executor), which is \<open>'w\<close>; what it has
  written when it throws stays written. \<^verbatim>\<open>malloc\<close> returns \<open>None\<close> for a null pointer.
\<close>

record ('m, 'w) collaborators =
  ParseFromString :: "uint8_t list \<Rightarrow> exn + 'm option"
  Simplify ::
    "'m \<Rightarrow> string list option \<Rightarrow> bool \<Rightarrow> bool \<Rightarrow> size_t \<Rightarrow> FoldingRecord \<times> 'w \<Rightarrow>
     (exn + 'm) \<times> FoldingRecord \<times> 'w"
  SerializeToString :: "'m \<Rightarrow> exn + uint8_t list option"
  malloc :: "size_t \<Rightarrow> (addr \<Rightarrow> uint8_t list option) \<Rightarrow> addr option"
  SimplifyPath ::
    "string \<Rightarrow> string \<Rightarrow> string list option \<Rightarrow> bool \<Rightarrow> bool \<Rightarrow> size_t \<Rightarrow>
     FoldingRecord \<times> 'w \<Rightarrow> exn option \<times> FoldingRecord \<times> 'w"

text \<open>
  The calls made to the collaborators, in order, with the configuration handed to the
  pipeline. The list is written at each call and never read.
\<close>

datatype call =
    CallParseFromString "uint8_t list"
  | CallSimplify "string list option" bool bool size_t
  | CallSerializeToString
  | CallMalloc size_t
  | CallSimplifyPath string string "string list option" bool bool size_t

text \<open>
  The state a boundary call can read or write: the thread-local \<^verbatim>\<open>g_last_error\<close> of
  every thread (empty when the thread starts), the global folding record, the rest of
  the pipeline's world, the caller's \<^verbatim>\<open>size_t\<close> and \<^verbatim>\<open>uint8_t*\<close> variables by address, and
  the blocks of the C heap.
\<close>

record 'w ffi_state =
  g_last_error :: "thread_id \<Rightarrow> string"
  g_folding_record :: FoldingRecord
  world :: 'w
  size_t_cells :: "addr \<Rightarrow> size_t"
  pointer_cells :: "addr \<Rightarrow> addr option"
  heap :: "addr \<Rightarrow> uint8_t list option"
  calls :: "call list"

text \<open>
  \<^verbatim>\<open>set_last_error\<close> assigns to the calling thread's string. Here the assignment
  succeeds; the copy it makes can run out of memory and throw, which is modelled further
  down (\<open>set_last_error_may_throw\<close> and the functions built on it).
\<close>

definition set_last_error :: "thread_id \<Rightarrow> string \<Rightarrow> 'w ffi_state \<Rightarrow> 'w ffi_state" where
  "set_last_error tid error s = s\<lparr>g_last_error := (g_last_error s)(tid := error)\<rparr>"

text \<open>
  \<^verbatim>\<open>handle_exception\<close> rethrows the exception in flight and catches it again: first as
  \<^verbatim>\<open>const std::exception&\<close>, then as anything.
\<close>

fun handle_exception ::
  "thread_id \<Rightarrow> exn \<Rightarrow> 'w ffi_state \<Rightarrow> onnxsim_error_t \<times> 'w ffi_state" where
  "handle_exception tid (StdException what) s =
     (ONNXSIM_ERROR_INTERNAL, set_last_error tid what s)"
| "handle_exception tid OtherException s =
     (ONNXSIM_ERROR_INTERNAL, set_last_error tid ''Unknown error'' s)"

definition note_call :: "call \<Rightarrow> 'w ffi_state \<Rightarrow> 'w ffi_state" where
  "note_call c s = s\<lparr>calls := calls s @ [c]\<rparr>"

definition call_ParseFromString ::
  "('m, 'w) collaborators \<Rightarrow> uint8_t list \<Rightarrow> 'w ffi_state \<Rightarrow> (exn + 'm option) \<times> 'w ffi_state" where
  "call_ParseFromString env model_str s =
     (ParseFromString env model_str, note_call (CallParseFromString model_str) s)"

definition call_Simplify ::
  "('m, 'w) collaborators \<Rightarrow> 'm \<Rightarrow> string list option \<Rightarrow> bool \<Rightarrow> bool \<Rightarrow> size_t \<Rightarrow>
   'w ffi_state \<Rightarrow> (exn + 'm) \<times> 'w ffi_state" where
  "call_Simplify env model skip_opts cf si threshold s =
     (case Simplify env model skip_opts cf si threshold (g_folding_record s, world s) of
        (result, record', world') \<Rightarrow>
          (result,
           (note_call (CallSimplify skip_opts cf si threshold) s)
             \<lparr>g_folding_record := record', world := world'\<rparr>))"

definition call_SerializeToString ::
  "('m, 'w) collaborators \<Rightarrow> 'm \<Rightarrow> 'w ffi_state \<Rightarrow> (exn + uint8_t list option) \<times> 'w ffi_state" where
  "call_SerializeToString env model s =
     (SerializeToString env model, note_call CallSerializeToString s)"

definition call_malloc ::
  "('m, 'w) collaborators \<Rightarrow> size_t \<Rightarrow> 'w ffi_state \<Rightarrow> addr option \<times> 'w ffi_state" where
  "call_malloc env n s = (malloc env n (heap s), note_call (CallMalloc n) s)"

definition call_SimplifyPath ::
  "('m, 'w) collaborators \<Rightarrow> string \<Rightarrow> string \<Rightarrow> string list option \<Rightarrow> bool \<Rightarrow> bool \<Rightarrow>
   size_t \<Rightarrow> 'w ffi_state \<Rightarrow> exn option \<times> 'w ffi_state" where
  "call_SimplifyPath env in_path out_path skip_opts cf si threshold s =
     (case SimplifyPath env in_path out_path skip_opts cf si threshold
             (g_folding_record s, world s) of
        (thrown, record', world') \<Rightarrow>
          (thrown,
           (note_call (CallSimplifyPath in_path out_path skip_opts cf si threshold) s)
             \<lparr>g_folding_record := record', world := world'\<rparr>))"

text \<open>
  ``Prepare skip optimizers'', the same text in both functions. \<^verbatim>\<open>skip_optimizers\<close> is a
  pointer to an array of \<^verbatim>\<open>const char*\<close>: \<open>None\<close> when null, otherwise the memory behind
  it, read by index; an entry is \<open>None\<close> when null. The loop reads the indices below
  \<^verbatim>\<open>skip_optimizers_len\<close> in order; \<^verbatim>\<open>++i\<close> cannot wrap, as \<open>i\<close> is below the length.
\<close>

function skip_loop ::
  "(nat \<Rightarrow> string option) \<Rightarrow> nat \<Rightarrow> nat \<Rightarrow> string list \<Rightarrow> string list" where
  "skip_loop skip_optimizers n i opts =
     (if i < n
      then skip_loop skip_optimizers n (i + 1)
             (case skip_optimizers i of None \<Rightarrow> opts | Some str \<Rightarrow> opts @ [str])
      else opts)"
  by pat_completeness auto
termination
  by (relation "measure (\<lambda>(skip_optimizers, n, i, opts). n - i)") auto

declare skip_loop.simps [simp del]

definition prepare_skip_opts ::
  "(nat \<Rightarrow> string option) option \<Rightarrow> size_t \<Rightarrow> string list option" where
  "prepare_skip_opts skip_optimizers skip_optimizers_len =
     (case skip_optimizers of
        None \<Rightarrow> None
      | Some array \<Rightarrow>
          if skip_optimizers_len > 0
          then Some (skip_loop array (unat skip_optimizers_len) 0 [])
          else None)"

text \<open>
  The body of the \<^verbatim>\<open>try\<close> block of \<^verbatim>\<open>onnxsim_simplify_bytes\<close>: \<open>Inr\<close> of the code it
  returns, or \<open>Inl\<close> of the exception that leaves it. \<^verbatim>\<open>model_bytes\<close> is the memory behind
  the pointer, \<^verbatim>\<open>out_bytes\<close> and \<^verbatim>\<open>out_bytes_len\<close> are the addresses of the caller's
  variables; each is \<open>None\<close> when null.
\<close>

definition onnxsim_simplify_bytes_try ::
  "('m, 'w) collaborators \<Rightarrow> thread_id \<Rightarrow> (nat \<Rightarrow> uint8_t) option \<Rightarrow> size_t \<Rightarrow>
   (nat \<Rightarrow> string option) option \<Rightarrow> size_t \<Rightarrow> c_int \<Rightarrow> c_int \<Rightarrow> size_t \<Rightarrow>
   addr option \<Rightarrow> addr option \<Rightarrow> 'w ffi_state \<Rightarrow> (exn + onnxsim_error_t) \<times> 'w ffi_state" where
  "onnxsim_simplify_bytes_try env tid model_bytes model_bytes_len skip_optimizers
       skip_optimizers_len constant_folding shape_inference tensor_size_threshold
       out_bytes out_bytes_len s =
     (case model_bytes of
        None \<Rightarrow>
          (Inr ONNXSIM_ERROR_INVALID_ARGUMENT, set_last_error tid ''model_bytes cannot be NULL'' s)
      | Some bytes \<Rightarrow>
     (if out_bytes = None \<or> out_bytes_len = None
      then (Inr ONNXSIM_ERROR_INVALID_ARGUMENT,
            set_last_error tid ''out_bytes or out_bytes_len cannot be NULL'' s)
      else
     (case call_ParseFromString env (map bytes [0..<unat model_bytes_len]) s of
        (Inl e, s1) \<Rightarrow> (Inl e, s1)
      | (Inr None, s1) \<Rightarrow>
          (Inr ONNXSIM_ERROR_PARSE_FAILED, set_last_error tid ''Failed to parse model protobuf'' s1)
      | (Inr (Some model), s1) \<Rightarrow>
     (case call_Simplify env model (prepare_skip_opts skip_optimizers skip_optimizers_len)
             (constant_folding \<noteq> 0) (shape_inference \<noteq> 0) tensor_size_threshold s1 of
        (Inl e, s2) \<Rightarrow> (Inl e, s2)
      | (Inr simplified_model, s2) \<Rightarrow>
     (case call_SerializeToString env simplified_model s2 of
        (Inl e, s3) \<Rightarrow> (Inl e, s3)
      | (Inr None, s3) \<Rightarrow>
          (Inr ONNXSIM_ERROR_SERIALIZE_FAILED,
           set_last_error tid ''Failed to serialize simplified model'' s3)
      | (Inr (Some output), s3) \<Rightarrow>
     (let len_at = the out_bytes_len;
          ptr_at = the out_bytes;
          s4 = s3\<lparr>size_t_cells := (size_t_cells s3)(len_at := of_nat (length output))\<rparr>;
          (p, s5) = call_malloc env (size_t_cells s4 len_at) s4;
          s6 = s5\<lparr>pointer_cells := (pointer_cells s5)(ptr_at := p)\<rparr>
      in case pointer_cells s6 ptr_at of
           None \<Rightarrow>
             (Inr ONNXSIM_ERROR_INTERNAL,
              set_last_error tid ''Failed to allocate memory for output'' s6)
         | Some block \<Rightarrow>
             (Inr ONNXSIM_SUCCESS,
              s6\<lparr>heap := (heap s6)
                    (block := Some (take (unat (size_t_cells s6 len_at)) output))\<rparr>)))))))"

text \<open>The function: the \<^verbatim>\<open>try\<close> block, and \<^verbatim>\<open>catch (...)\<close> around it.\<close>

definition onnxsim_simplify_bytes ::
  "('m, 'w) collaborators \<Rightarrow> thread_id \<Rightarrow> (nat \<Rightarrow> uint8_t) option \<Rightarrow> size_t \<Rightarrow>
   (nat \<Rightarrow> string option) option \<Rightarrow> size_t \<Rightarrow> c_int \<Rightarrow> c_int \<Rightarrow> size_t \<Rightarrow>
   addr option \<Rightarrow> addr option \<Rightarrow> 'w ffi_state \<Rightarrow> onnxsim_error_t \<times> 'w ffi_state" where
  "onnxsim_simplify_bytes env tid model_bytes model_bytes_len skip_optimizers
       skip_optimizers_len constant_folding shape_inference tensor_size_threshold
       out_bytes out_bytes_len s =
     (case onnxsim_simplify_bytes_try env tid model_bytes model_bytes_len skip_optimizers
             skip_optimizers_len constant_folding shape_inference tensor_size_threshold
             out_bytes out_bytes_len s of
        (Inr code, s') \<Rightarrow> (code, s')
      | (Inl e, s') \<Rightarrow> handle_exception tid e s')"

definition onnxsim_simplify_file_try ::
  "('m, 'w) collaborators \<Rightarrow> thread_id \<Rightarrow> string option \<Rightarrow> string option \<Rightarrow>
   (nat \<Rightarrow> string option) option \<Rightarrow> size_t \<Rightarrow> c_int \<Rightarrow> c_int \<Rightarrow> size_t \<Rightarrow>
   'w ffi_state \<Rightarrow> (exn + onnxsim_error_t) \<times> 'w ffi_state" where
  "onnxsim_simplify_file_try env tid in_path out_path skip_optimizers skip_optimizers_len
       constant_folding shape_inference tensor_size_threshold s =
     (if in_path = None \<or> out_path = None
      then (Inr ONNXSIM_ERROR_INVALID_ARGUMENT,
            set_last_error tid ''in_path and out_path cannot be NULL'' s)
      else
     (case call_SimplifyPath env (the in_path) (the out_path)
             (prepare_skip_opts skip_optimizers skip_optimizers_len)
             (constant_folding \<noteq> 0) (shape_inference \<noteq> 0) tensor_size_threshold s of
        (Some e, s1) \<Rightarrow> (Inl e, s1)
      | (None, s1) \<Rightarrow> (Inr ONNXSIM_SUCCESS, s1)))"

definition onnxsim_simplify_file ::
  "('m, 'w) collaborators \<Rightarrow> thread_id \<Rightarrow> string option \<Rightarrow> string option \<Rightarrow>
   (nat \<Rightarrow> string option) option \<Rightarrow> size_t \<Rightarrow> c_int \<Rightarrow> c_int \<Rightarrow> size_t \<Rightarrow>
   'w ffi_state \<Rightarrow> onnxsim_error_t \<times> 'w ffi_state" where
  "onnxsim_simplify_file env tid in_path out_path skip_optimizers skip_optimizers_len
       constant_folding shape_inference tensor_size_threshold s =
     (case onnxsim_simplify_file_try env tid in_path out_path skip_optimizers
             skip_optimizers_len constant_folding shape_inference tensor_size_threshold s of
        (Inr code, s') \<Rightarrow> (code, s')
      | (Inl e, s') \<Rightarrow> handle_exception tid e s')"

text \<open>\<^verbatim>\<open>onnxsim_get_last_error\<close>: a null pointer (\<open>None\<close>) when the string is empty.\<close>

definition onnxsim_get_last_error :: "thread_id \<Rightarrow> 'w ffi_state \<Rightarrow> string option" where
  "onnxsim_get_last_error tid s =
     (if g_last_error s tid = [] then None else Some (g_last_error s tid))"

text \<open>The configurations handed to the pipeline, read off the list of calls.\<close>

fun pipeline_config :: "call \<Rightarrow> (string list option \<times> bool \<times> bool \<times> size_t) option" where
  "pipeline_config (CallSimplify skip_opts cf si threshold) = Some (skip_opts, cf, si, threshold)"
| "pipeline_config (CallSimplifyPath in_path out_path skip_opts cf si threshold) =
     Some (skip_opts, cf, si, threshold)"
| "pipeline_config (CallParseFromString model_str) = None"
| "pipeline_config CallSerializeToString = None"
| "pipeline_config (CallMalloc n) = None"

definition pipeline_calls ::
  "'w ffi_state \<Rightarrow> (string list option \<times> bool \<times> bool \<times> size_t) list" where
  "pipeline_calls s = List.map_filter pipeline_config (calls s)"

section \<open>onnxsim\_ffi.cc: the boundary when storing the message can throw\<close>

text \<open>
  \<^verbatim>\<open>set_last_error(const std::string&)\<close> builds a \<^verbatim>\<open>std::string\<close> from its argument and
  copies it into \<^verbatim>\<open>g_last_error\<close>; both allocate, and an allocation that fails throws
  (\<^verbatim>\<open>std::bad_alloc\<close>). Whether the store of a given text throws, and what, is a
  parameter: \<open>None\<close> when it succeeds. A store that throws leaves the string as it was.
\<close>

definition set_last_error_may_throw ::
  "(string \<Rightarrow> exn option) \<Rightarrow> thread_id \<Rightarrow> string \<Rightarrow> 'w ffi_state \<Rightarrow>
   exn option \<times> 'w ffi_state" where
  "set_last_error_may_throw store tid error s =
     (case store error of
        None \<Rightarrow> (None, set_last_error tid error s)
      | Some thrown \<Rightarrow> (Some thrown, s))"

text \<open>
  \<^verbatim>\<open>handle_exception\<close> once more. Its two calls of \<^verbatim>\<open>set_last_error\<close> stand inside the
  \<^verbatim>\<open>catch\<close> clauses, outside the \<^verbatim>\<open>try\<close> block, and the function is itself called from
  a \<^verbatim>\<open>catch (...)\<close> clause: what they throw is caught nowhere and leaves the function
  (\<open>Inl\<close>).
\<close>

fun handle_exception_may_throw ::
  "(string \<Rightarrow> exn option) \<Rightarrow> thread_id \<Rightarrow> exn \<Rightarrow> 'w ffi_state \<Rightarrow>
   (exn + onnxsim_error_t) \<times> 'w ffi_state" where
  "handle_exception_may_throw store tid (StdException what) s =
     (case set_last_error_may_throw store tid what s of
        (None, s') \<Rightarrow> (Inr ONNXSIM_ERROR_INTERNAL, s')
      | (Some thrown, s') \<Rightarrow> (Inl thrown, s'))"
| "handle_exception_may_throw store tid OtherException s =
     (case set_last_error_may_throw store tid ''Unknown error'' s of
        (None, s') \<Rightarrow> (Inr ONNXSIM_ERROR_INTERNAL, s')
      | (Some thrown, s') \<Rightarrow> (Inl thrown, s'))"

text \<open>
  The two statements \<^verbatim>\<open>set_last_error(error); return code;\<close> inside a \<^verbatim>\<open>try\<close> block:
  what the store throws leaves the block.
\<close>

definition return_error ::
  "(string \<Rightarrow> exn option) \<Rightarrow> thread_id \<Rightarrow> onnxsim_error_t \<Rightarrow> string \<Rightarrow> 'w ffi_state \<Rightarrow>
   (exn + onnxsim_error_t) \<times> 'w ffi_state" where
  "return_error store tid code error s =
     (case set_last_error_may_throw store tid error s of
        (None, s') \<Rightarrow> (Inr code, s')
      | (Some thrown, s') \<Rightarrow> (Inl thrown, s'))"

text \<open>
  The two boundary functions once more, statement for statement as above, with stores
  that can throw. A call stores at most once inside its \<^verbatim>\<open>try\<close> block (each store is
  followed by a \<^verbatim>\<open>return\<close>) and at most once inside \<^verbatim>\<open>handle_exception\<close>, so one
  parameter for each place covers every run: \<open>store_try\<close> and \<open>store_catch\<close>. The value is
  \<open>Inr\<close> of the code returned, or \<open>Inl\<close> of the exception that leaves the function.
\<close>

definition onnxsim_simplify_bytes_try_may_throw ::
  "(string \<Rightarrow> exn option) \<Rightarrow> ('m, 'w) collaborators \<Rightarrow> thread_id \<Rightarrow>
   (nat \<Rightarrow> uint8_t) option \<Rightarrow> size_t \<Rightarrow> (nat \<Rightarrow> string option) option \<Rightarrow> size_t \<Rightarrow>
   c_int \<Rightarrow> c_int \<Rightarrow> size_t \<Rightarrow> addr option \<Rightarrow> addr option \<Rightarrow> 'w ffi_state \<Rightarrow>
   (exn + onnxsim_error_t) \<times> 'w ffi_state" where
  "onnxsim_simplify_bytes_try_may_throw store_try env tid model_bytes model_bytes_len
       skip_optimizers skip_optimizers_len constant_folding shape_inference
       tensor_size_threshold out_bytes out_bytes_len s =
     (case model_bytes of
        None \<Rightarrow>
          return_error store_try tid ONNXSIM_ERROR_INVALID_ARGUMENT
            ''model_bytes cannot be NULL'' s
      | Some bytes \<Rightarrow>
     (if out_bytes = None \<or> out_bytes_len = None
      then return_error store_try tid ONNXSIM_ERROR_INVALID_ARGUMENT
             ''out_bytes or out_bytes_len cannot be NULL'' s
      else
     (case call_ParseFromString env (map bytes [0..<unat model_bytes_len]) s of
        (Inl e, s1) \<Rightarrow> (Inl e, s1)
      | (Inr None, s1) \<Rightarrow>
          return_error store_try tid ONNXSIM_ERROR_PARSE_FAILED
            ''Failed to parse model protobuf'' s1
      | (Inr (Some model), s1) \<Rightarrow>
     (case call_Simplify env model (prepare_skip_opts skip_optimizers skip_optimizers_len)
             (constant_folding \<noteq> 0) (shape_inference \<noteq> 0) tensor_size_threshold s1 of
        (Inl e, s2) \<Rightarrow> (Inl e, s2)
      | (Inr simplified_model, s2) \<Rightarrow>
     (case call_SerializeToString env simplified_model s2 of
        (Inl e, s3) \<Rightarrow> (Inl e, s3)
      | (Inr None, s3) \<Rightarrow>
          return_error store_try tid ONNXSIM_ERROR_SERIALIZE_FAILED
            ''Failed to serialize simplified model'' s3
      | (Inr (Some output), s3) \<Rightarrow>
     (let len_at = the out_bytes_len;
          ptr_at = the out_bytes;
          s4 = s3\<lparr>size_t_cells := (size_t_cells s3)(len_at := of_nat (length output))\<rparr>;
          (p, s5) = call_malloc env (size_t_cells s4 len_at) s4;
          s6 = s5\<lparr>pointer_cells := (pointer_cells s5)(ptr_at := p)\<rparr>
      in case pointer_cells s6 ptr_at of
           None \<Rightarrow>
             return_error store_try tid ONNXSIM_ERROR_INTERNAL
               ''Failed to allocate memory for output'' s6
         | Some block \<Rightarrow>
             (Inr ONNXSIM_SUCCESS,
              s6\<lparr>heap := (heap s6)
                    (block := Some (take (unat (size_t_cells s6 len_at)) output))\<rparr>)))))))"

definition onnxsim_simplify_bytes_may_throw ::
  "(string \<Rightarrow> exn option) \<Rightarrow> (string \<Rightarrow> exn option) \<Rightarrow> ('m, 'w) collaborators \<Rightarrow>
   thread_id \<Rightarrow> (nat \<Rightarrow> uint8_t) option \<Rightarrow> size_t \<Rightarrow> (nat \<Rightarrow> string option) option \<Rightarrow>
   size_t \<Rightarrow> c_int \<Rightarrow> c_int \<Rightarrow> size_t \<Rightarrow> addr option \<Rightarrow> addr option \<Rightarrow> 'w ffi_state \<Rightarrow>
   (exn + onnxsim_error_t) \<times> 'w ffi_state" where
  "onnxsim_simplify_bytes_may_throw store_try store_catch env tid model_bytes model_bytes_len
       skip_optimizers skip_optimizers_len constant_folding shape_inference
       tensor_size_threshold out_bytes out_bytes_len s =
     (case onnxsim_simplify_bytes_try_may_throw store_try env tid model_bytes model_bytes_len
             skip_optimizers skip_optimizers_len constant_folding shape_inference
             tensor_size_threshold out_bytes out_bytes_len s of
        (Inr code, s') \<Rightarrow> (Inr code, s')
      | (Inl e, s') \<Rightarrow> handle_exception_may_throw store_catch tid e s')"

definition onnxsim_simplify_file_try_may_throw ::
  "(string \<Rightarrow> exn option) \<Rightarrow> ('m, 'w) collaborators \<Rightarrow> thread_id \<Rightarrow> string option \<Rightarrow>
   string option \<Rightarrow> (nat \<Rightarrow> string option) option \<Rightarrow> size_t \<Rightarrow> c_int \<Rightarrow> c_int \<Rightarrow>
   size_t \<Rightarrow> 'w ffi_state \<Rightarrow> (exn + onnxsim_error_t) \<times> 'w ffi_state" where
  "onnxsim_simplify_file_try_may_throw store_try env tid in_path out_path skip_optimizers
       skip_optimizers_len constant_folding shape_inference tensor_size_threshold s =
     (if in_path = None \<or> out_path = None
      then return_error store_try tid ONNXSIM_ERROR_INVALID_ARGUMENT
             ''in_path and out_path cannot be NULL'' s
      else
     (case call_SimplifyPath env (the in_path) (the out_path)
             (prepare_skip_opts skip_optimizers skip_optimizers_len)
             (constant_folding \<noteq> 0) (shape_inference \<noteq> 0) tensor_size_threshold s of
        (Some e, s1) \<Rightarrow> (Inl e, s1)
      | (None, s1) \<Rightarrow> (Inr ONNXSIM_SUCCESS, s1)))"

definition onnxsim_simplify_file_may_throw ::
  "(string \<Rightarrow> exn option) \<Rightarrow> (string \<Rightarrow> exn option) \<Rightarrow> ('m, 'w) collaborators \<Rightarrow>
   thread_id \<Rightarrow> string option \<Rightarrow> string option \<Rightarrow> (nat \<Rightarrow> string option) option \<Rightarrow>
   size_t \<Rightarrow> c_int \<Rightarrow> c_int \<Rightarrow> size_t \<Rightarrow> 'w ffi_state \<Rightarrow>
   (exn + onnxsim_error_t) \<times> 'w ffi_state" where
  "onnxsim_simplify_file_may_throw store_try store_catch env tid in_path out_path
       skip_optimizers skip_optimizers_len constant_folding shape_inference
       tensor_size_threshold s =
     (case onnxsim_simplify_file_try_may_throw store_try env tid in_path out_path
             skip_optimizers skip_optimizers_len constant_folding shape_inference
             tensor_size_threshold s of
        (Inr code, s') \<Rightarrow> (Inr code, s')
      | (Inl e, s') \<Rightarrow> handle_exception_may_throw store_catch tid e s')"

section \<open>Test doubles\<close>

text \<open>
  Collaborators that follow a script, for running the boundary on concrete inputs: each
  returns the outcome it was given, whatever its arguments, and the pipeline leaves the
  folding record and the world as they are. The model type is a byte string.
\<close>

definition scripted_env ::
  "(exn + uint8_t list option) \<Rightarrow> (exn + uint8_t list) \<Rightarrow> (exn + uint8_t list option) \<Rightarrow>
   addr option \<Rightarrow> exn option \<Rightarrow> (uint8_t list, unit) collaborators" where
  "scripted_env parsed simplified serialized block thrown =
     \<lparr>ParseFromString = (\<lambda>model_str. parsed),
      Simplify = (\<lambda>model skip_opts cf si threshold st. (simplified, st)),
      SerializeToString = (\<lambda>model. serialized),
      malloc = (\<lambda>n blocks. block),
      SimplifyPath = (\<lambda>in_path out_path skip_opts cf si threshold st. (thrown, st))\<rparr>"

text \<open>A process that has just started: no thread has an error message, nothing is recorded.\<close>

definition initial_state :: "unit ffi_state" where
  "initial_state =
     \<lparr>g_last_error = (\<lambda>tid. []), g_folding_record = FoldingRecord_new, world = (),
      size_t_cells = (\<lambda>a. 0), pointer_cells = (\<lambda>a. None), heap = (\<lambda>a. None),
      calls = []\<rparr>"



definition sample_bytes :: "nat \<Rightarrow> uint8_t" where
  "sample_bytes i = 255"

definition stale_messages :: "thread_id \<Rightarrow> string" where
  "stale_messages tid = ''stale''"

definition sample_skip_array :: "nat \<Rightarrow> string option" where
  "sample_skip_array i = (if i = 0 then Some ''fuse_bn_into_conv'' else
                          if i = 2 then Some ''eliminate_nop_pad'' else None)"

definition null_skip_array :: "nat \<Rightarrow> string option" where
  "null_skip_array i = None"

definition sample_ok_op :: FoldedOp where
  "sample_ok_op =
     \<lparr>op_type = ''Add'', op_name = ''add0'', inputs = [''a'', ''b''], outputs = [''c''],
      success = True, error_msg = []\<rparr>"

definition sample_failed_op :: FoldedOp where
  "sample_failed_op =
     \<lparr>op_type = ''Loop'', op_name = [], inputs = [''c''], outputs = [''d''],
      success = False, error_msg = ''not supported''\<rparr>"

section \<open>Properties of the folding record\<close>

lemma counters_match_new: "counters_match FoldingRecord_new"
  by (simp add: counters_match_def FoldingRecord_new_def)

lemma counters_match_RecordFold:
  "counters_match r \<Longrightarrow> counters_match (RecordFold op r)"
  by (simp add: counters_match_def RecordFold_def Let_def)

lemma counters_match_Clear: "counters_match (Clear r)"
  by (simp add: counters_match_def Clear_def)

lemma counters_match_apply:
  "counters_match r \<Longrightarrow> counters_match (apply_record_call c r)"
  by (cases c) (simp_all add: counters_match_RecordFold counters_match_Clear)

lemma counters_match_run:
  "counters_match r \<Longrightarrow> counters_match (run_record_calls cs r)"
  by (induction cs arbitrary: r) (simp_all add: counters_match_apply)

lemma counters_match_sum:
  assumes "counters_match r"
  shows "total_attempted r = total_succeeded r + total_failed r"
proof -
  have "length (folded_ops r) =
        length (filter success (folded_ops r)) +
        length (filter (\<lambda>op. \<not> success op) (folded_ops r))"
    by (simp add: sum_length_filter_compl)
  then have "(of_nat (length (folded_ops r)) :: size_t) =
        of_nat (length (filter success (folded_ops r))) +
        of_nat (length (filter (\<lambda>op. \<not> success op) (folded_ops r)))"
    by (metis of_nat_add)
  with assms show ?thesis by (simp add: counters_match_def)
qed

lemma counters_match_exact:
  assumes "counters_match r" and "length (folded_ops r) < 2 ^ 64"
  shows "unat (total_attempted r) = length (folded_ops r)"
    and "unat (total_succeeded r) + unat (total_failed r) = length (folded_ops r)"
proof -
  let ?n = "length (folded_ops r)"
  let ?s = "length (filter success (folded_ops r))"
  let ?f = "length (filter (\<lambda>op. \<not> success op) (folded_ops r))"
  have split: "?s + ?f = ?n" by (simp add: sum_length_filter_compl)
  have small: "?n < 2 ^ LENGTH(64)" using assms(2) by simp
  from split small have "?s < 2 ^ LENGTH(64)" and "?f < 2 ^ LENGTH(64)" by linarith+
  then have "unat (of_nat ?s :: size_t) = ?s" and "unat (of_nat ?f :: size_t) = ?f"
    by (simp_all add: unat_of_nat)
  moreover have "unat (of_nat ?n :: size_t) = ?n"
    using small by (simp add: unat_of_nat)
  ultimately show "unat (total_attempted r) = ?n"
    and "unat (total_succeeded r) + unat (total_failed r) = ?n"
    using assms(1) split by (simp_all add: counters_match_def)
qed

text \<open>
  Claim C2. In every state of the folding record reached from the freshly constructed
  record by any sequence of \<^verbatim>\<open>RecordFold\<close> and \<^verbatim>\<open>Clear\<close> calls, the attempted counter
  equals the sum of the succeeded and failed counters and equals the number of entries:
  as \<^verbatim>\<open>size_t\<close> values always, and as natural numbers whenever the vector holds fewer
  than \<open>2^64\<close> entries (which every \<^verbatim>\<open>std::vector\<close> does). One \<^verbatim>\<open>RecordFold\<close> appends
  exactly its entry, adds one to the attempted counter and adds one to exactly one of the
  other two, chosen by the entry's success flag. After \<^verbatim>\<open>Clear\<close> the entry list is
  empty and all three counters are zero.
\<close>

theorem folding_record_counters:
  "(let r = run_record_calls cs FoldingRecord_new in
      total_attempted r = total_succeeded r + total_failed r \<and>
      total_attempted r = of_nat (length (folded_ops r)) \<and>
      (length (folded_ops r) < 2 ^ 64 \<longrightarrow>
         unat (total_attempted r) = length (folded_ops r) \<and>
         unat (total_succeeded r) + unat (total_failed r) = length (folded_ops r))) \<and>
   folded_ops (RecordFold op r0) = folded_ops r0 @ [op] \<and>
   total_attempted (RecordFold op r0) = total_attempted r0 + 1 \<and>
   total_succeeded (RecordFold op r0) = total_succeeded r0 + (if success op then 1 else 0) \<and>
   total_failed (RecordFold op r0) = total_failed r0 + (if success op then 0 else 1) \<and>
   folded_ops (Clear r0) = [] \<and> total_attempted (Clear r0) = 0 \<and>
   total_succeeded (Clear r0) = 0 \<and> total_failed (Clear r0) = 0"
proof -
  let ?r = "run_record_calls cs FoldingRecord_new"
  have m: "counters_match ?r"
    by (rule counters_match_run [OF counters_match_new])
  have a: "total_attempted ?r = total_succeeded ?r + total_failed ?r"
    by (rule counters_match_sum [OF m])
  have b: "total_attempted ?r = of_nat (length (folded_ops ?r))"
    using m by (simp add: counters_match_def)
  have c: "length (folded_ops ?r) < 2 ^ 64 \<longrightarrow>
         unat (total_attempted ?r) = length (folded_ops ?r) \<and>
         unat (total_succeeded ?r) + unat (total_failed ?r) = length (folded_ops ?r)"
    using counters_match_exact [OF m] by blast
  have d: "folded_ops (RecordFold op r0) = folded_ops r0 @ [op] \<and>
   total_attempted (RecordFold op r0) = total_attempted r0 + 1 \<and>
   total_succeeded (RecordFold op r0) = total_succeeded r0 + (if success op then 1 else 0) \<and>
   total_failed (RecordFold op r0) = total_failed r0 + (if success op then 0 else 1)"
    by (simp add: RecordFold_def Let_def)
  have e: "folded_ops (Clear r0) = [] \<and> total_attempted (Clear r0) = 0 \<and>
   total_succeeded (Clear r0) = 0 \<and> total_failed (Clear r0) = 0"
    by (simp add: Clear_def)
  from a b c d e show ?thesis unfolding Let_def by blast
qed


text \<open>A run of the record: two folds, a clear, then one failed and one successful fold.\<close>

theorem folding_record_counters_witness:
  "length (folded_ops (run_record_calls
      [CallRecordFold sample_ok_op, CallRecordFold sample_failed_op, CallClear,
       CallRecordFold sample_failed_op, CallRecordFold sample_ok_op] FoldingRecord_new)) < 2 ^ 64 \<and>
   unat (total_attempted (run_record_calls
      [CallRecordFold sample_ok_op, CallRecordFold sample_failed_op, CallClear,
       CallRecordFold sample_failed_op, CallRecordFold sample_ok_op] FoldingRecord_new)) = 2 \<and>
   unat (total_succeeded (run_record_calls
      [CallRecordFold sample_ok_op, CallRecordFold sample_failed_op, CallClear,
       CallRecordFold sample_failed_op, CallRecordFold sample_ok_op] FoldingRecord_new)) +
   unat (total_failed (run_record_calls
      [CallRecordFold sample_ok_op, CallRecordFold sample_failed_op, CallClear,
       CallRecordFold sample_failed_op, CallRecordFold sample_ok_op] FoldingRecord_new)) = 2"
proof -
  have len: "length (folded_ops (run_record_calls
      [CallRecordFold sample_ok_op, CallRecordFold sample_failed_op, CallClear,
       CallRecordFold sample_failed_op, CallRecordFold sample_ok_op] FoldingRecord_new)) = 2"
    by (simp add: RecordFold_def Clear_def FoldingRecord_new_def Let_def)
  show ?thesis
    using folding_record_counters [of
      "[CallRecordFold sample_ok_op, CallRecordFold sample_failed_op, CallClear,
        CallRecordFold sample_failed_op, CallRecordFold sample_ok_op]"] len
    by (simp add: Let_def)
qed


section \<open>Properties of the executor registry\<close>

text \<open>
  Claim C1. With no executor registered (\<^verbatim>\<open>instance_\<close> null, also after
  \<^verbatim>\<open>set_instance(nullptr)\<close>), \<^verbatim>\<open>Run\<close> throws \<^verbatim>\<open>std::runtime_error("empty instance")\<close>,
  the condition the specification names NoExecutorBound, for every model and every list
  of inputs. No executor is invoked: the host's state comes back as it went in. When the
  exception reaches the boundary, \<^verbatim>\<open>handle_exception\<close> turns it into the internal-error
  code with the message \<^verbatim>\<open>empty instance\<close>.
\<close>

theorem run_without_executor:
  "Run None model ins x = (Inl (StdException ''empty instance''), x) \<and>
   Run (set_instance None registered) model ins x = (Inl (StdException ''empty instance''), x) \<and>
   handle_exception tid (StdException ''empty instance'') s =
     (ONNXSIM_ERROR_INTERNAL, set_last_error tid ''empty instance'' s)"
  by (simp add: Run_def set_instance_def)

section \<open>Properties of the boundary\<close>

lemmas boundary_defs =
  onnxsim_simplify_bytes_def onnxsim_simplify_bytes_try_def
  onnxsim_simplify_file_def onnxsim_simplify_file_try_def
  call_ParseFromString_def call_Simplify_def call_SerializeToString_def call_malloc_def
  call_SimplifyPath_def

lemma handle_exception_eq:
  "handle_exception tid e s =
     (ONNXSIM_ERROR_INTERNAL,
      set_last_error tid
        (case e of StdException what \<Rightarrow> what | OtherException \<Rightarrow> ''Unknown error'') s)"
  by (cases e) simp_all

lemma set_last_error_fields:
  "g_last_error (set_last_error tid m s) = (g_last_error s)(tid := m)"
  "g_folding_record (set_last_error tid m s) = g_folding_record s"
  "world (set_last_error tid m s) = world s"
  "size_t_cells (set_last_error tid m s) = size_t_cells s"
  "pointer_cells (set_last_error tid m s) = pointer_cells s"
  "heap (set_last_error tid m s) = heap s"
  "calls (set_last_error tid m s) = calls s"
  by (simp_all add: set_last_error_def)

lemma note_call_fields:
  "g_last_error (note_call c s) = g_last_error s"
  "g_folding_record (note_call c s) = g_folding_record s"
  "world (note_call c s) = world s"
  "size_t_cells (note_call c s) = size_t_cells s"
  "pointer_cells (note_call c s) = pointer_cells s"
  "heap (note_call c s) = heap s"
  "calls (note_call c s) = calls s @ [c]"
  by (simp_all add: note_call_def)

lemmas state_fields = set_last_error_fields note_call_fields

text \<open>The loop collects the entries that are not null, in the order of the array.\<close>

lemma skip_loop_eq:
  "skip_loop array n i opts =
     opts @ map the (filter (\<lambda>entry. entry \<noteq> None) (map array [i..<n]))"
proof (induction array n i opts rule: skip_loop.induct)
  case (1 array n i opts)
  show ?case
  proof (cases "i < n")
    case True
    then have "[i..<n] = i # [i + 1..<n]"
      by (simp add: upt_rec)
    with True "1" show ?thesis
      by (subst skip_loop.simps) (auto split: option.splits)
  next
    case False
    then show ?thesis
      by (subst skip_loop.simps) simp
  qed
qed

text \<open>
  Claim C3. A call of \<^verbatim>\<open>onnxsim_simplify_bytes\<close> with a null \<^verbatim>\<open>model_bytes\<close> returns
  \<^verbatim>\<open>ONNXSIM_ERROR_INVALID_ARGUMENT\<close>, whatever the other arguments and collaborators
  are. The state it leaves is the state it found with the calling thread's error message
  set: no collaborator has been called (nothing was parsed, the pipeline did not run),
  and the folding record, the caller's variables and the heap are unchanged.
\<close>

theorem simplify_bytes_null_model:
  "fst (onnxsim_simplify_bytes env tid None model_bytes_len skip_optimizers
          skip_optimizers_len constant_folding shape_inference tensor_size_threshold
          out_bytes out_bytes_len s) = ONNXSIM_ERROR_INVALID_ARGUMENT \<and>
   snd (onnxsim_simplify_bytes env tid None model_bytes_len skip_optimizers
          skip_optimizers_len constant_folding shape_inference tensor_size_threshold
          out_bytes out_bytes_len s) =
     s\<lparr>g_last_error := (g_last_error s)(tid := ''model_bytes cannot be NULL'')\<rparr> \<and>
   g_folding_record (snd (onnxsim_simplify_bytes env tid None model_bytes_len skip_optimizers
          skip_optimizers_len constant_folding shape_inference tensor_size_threshold
          out_bytes out_bytes_len s)) = g_folding_record s \<and>
   calls (snd (onnxsim_simplify_bytes env tid None model_bytes_len skip_optimizers
          skip_optimizers_len constant_folding shape_inference tensor_size_threshold
          out_bytes out_bytes_len s)) = calls s"
  by (simp add: onnxsim_simplify_bytes_def onnxsim_simplify_bytes_try_def set_last_error_def)


text \<open>
  The paths of \<^verbatim>\<open>onnxsim_simplify_bytes\<close>: which argument is null, and what each
  collaborator answers. The collaborators see the folding record, the world and the heap
  of the state, and nothing else of it.
\<close>

lemma bytes_paths [case_names null_model null_out parse_throws parse_fails simplify_throws
    serialize_throws serialize_fails malloc_fails success]:
  fixes env :: "('m, 'w) collaborators" and s :: "'w ffi_state" and cf si :: c_int
  obtains
    "mb = None"
  | bytes where "mb = Some bytes" "ob = None \<or> obl = None"
  | bytes ptr_at len_at e where "mb = Some bytes" "ob = Some ptr_at" "obl = Some len_at"
      "ParseFromString env (map bytes [0..<unat mbl]) = Inl e"
  | bytes ptr_at len_at where "mb = Some bytes" "ob = Some ptr_at" "obl = Some len_at"
      "ParseFromString env (map bytes [0..<unat mbl]) = Inr None"
  | bytes ptr_at len_at model e record' world' where
      "mb = Some bytes" "ob = Some ptr_at" "obl = Some len_at"
      "ParseFromString env (map bytes [0..<unat mbl]) = Inr (Some model)"
      "Simplify env model (prepare_skip_opts so sol) (cf \<noteq> 0) (si \<noteq> 0) thr (g_folding_record s, world s) = (Inl e, record', world')"
  | bytes ptr_at len_at model simplified record' world' e where
      "mb = Some bytes" "ob = Some ptr_at" "obl = Some len_at"
      "ParseFromString env (map bytes [0..<unat mbl]) = Inr (Some model)"
      "Simplify env model (prepare_skip_opts so sol) (cf \<noteq> 0) (si \<noteq> 0) thr (g_folding_record s, world s) =
         (Inr simplified, record', world')"
      "SerializeToString env simplified = Inl e"
  | bytes ptr_at len_at model simplified record' world' where
      "mb = Some bytes" "ob = Some ptr_at" "obl = Some len_at"
      "ParseFromString env (map bytes [0..<unat mbl]) = Inr (Some model)"
      "Simplify env model (prepare_skip_opts so sol) (cf \<noteq> 0) (si \<noteq> 0) thr (g_folding_record s, world s) =
         (Inr simplified, record', world')"
      "SerializeToString env simplified = Inr None"
  | bytes ptr_at len_at model simplified record' world' serialized where
      "mb = Some bytes" "ob = Some ptr_at" "obl = Some len_at"
      "ParseFromString env (map bytes [0..<unat mbl]) = Inr (Some model)"
      "Simplify env model (prepare_skip_opts so sol) (cf \<noteq> 0) (si \<noteq> 0) thr (g_folding_record s, world s) =
         (Inr simplified, record', world')"
      "SerializeToString env simplified = Inr (Some serialized)"
      "malloc env (of_nat (length serialized)) (heap s) = None"
  | bytes ptr_at len_at model simplified record' world' serialized block where
      "mb = Some bytes" "ob = Some ptr_at" "obl = Some len_at"
      "ParseFromString env (map bytes [0..<unat mbl]) = Inr (Some model)"
      "Simplify env model (prepare_skip_opts so sol) (cf \<noteq> 0) (si \<noteq> 0) thr (g_folding_record s, world s) =
         (Inr simplified, record', world')"
      "SerializeToString env simplified = Inr (Some serialized)"
      "malloc env (of_nat (length serialized)) (heap s) = Some block"
proof (cases mb)
  case None
  then show ?thesis by (rule that(1))
next
  case (Some bytes)
  note mb = this
  show ?thesis
  proof (cases "ob = None \<or> obl = None")
    case True
    with mb show ?thesis by (rule that(2))
  next
    case False
    then obtain ptr_at len_at where out: "ob = Some ptr_at" "obl = Some len_at" by auto
    show ?thesis
    proof (cases "ParseFromString env (map bytes [0..<unat mbl])")
      case (Inl e)
      with mb out show ?thesis by (rule that(3))
    next
      case (Inr parsed)
      show ?thesis
      proof (cases parsed)
        case None
        with Inr mb out show ?thesis by (auto intro: that(4))
      next
        case (Some model)
        with Inr have parse: "ParseFromString env (map bytes [0..<unat mbl]) = Inr (Some model)"
          by simp
        obtain result record' world' where
          pipe: "Simplify env model (prepare_skip_opts so sol) (cf \<noteq> 0) (si \<noteq> 0) thr (g_folding_record s, world s) =
                   (result, record', world')"
          by (cases "Simplify env model (prepare_skip_opts so sol) (cf \<noteq> 0) (si \<noteq> 0) thr (g_folding_record s, world s)")
        show ?thesis
        proof (cases result)
          case (Inl e)
          with pipe mb out parse show ?thesis by (auto intro: that(5))
        next
          case (Inr simplified)
          with pipe have pipe': "Simplify env model (prepare_skip_opts so sol) (cf \<noteq> 0) (si \<noteq> 0) thr (g_folding_record s, world s) =
                   (Inr simplified, record', world')" by simp
          show ?thesis
          proof (cases "SerializeToString env simplified")
            case (Inl e)
            with pipe' mb out parse show ?thesis by (auto intro: that(6))
          next
            case (Inr ser_result)
            note ser = this
            show ?thesis
            proof (cases ser_result)
              case None
              with ser pipe' mb out parse show ?thesis by (auto intro: that(7))
            next
              case (Some serialized)
              with ser have ser': "SerializeToString env simplified = Inr (Some serialized)" by simp
              show ?thesis
              proof (cases "malloc env (of_nat (length serialized)) (heap s)")
                case None
                with ser' pipe' mb out parse show ?thesis by (auto intro: that(8))
              next
                case (Some block)
                with ser' pipe' mb out parse show ?thesis by (auto intro: that(9))
              qed
            qed
          qed
        qed
      qed
    qed
  qed
qed

text \<open>The paths of \<^verbatim>\<open>onnxsim_simplify_file\<close>.\<close>

lemma file_paths [case_names null_path pipeline_throws success]:
  fixes env :: "('m, 'w) collaborators" and s :: "'w ffi_state" and cf si :: c_int
  obtains
    "ip = None \<or> op = None"
  | input out e record' world' where "ip = Some input" "op = Some out"
      "SimplifyPath env input out (prepare_skip_opts so sol) (cf \<noteq> 0) (si \<noteq> 0) thr (g_folding_record s, world s) =
         (Some e, record', world')"
  | input out record' world' where "ip = Some input" "op = Some out"
      "SimplifyPath env input out (prepare_skip_opts so sol) (cf \<noteq> 0) (si \<noteq> 0) thr (g_folding_record s, world s) =
         (None, record', world')"
proof (cases "ip = None \<or> op = None")
  case True
  then show ?thesis by (rule that(1))
next
  case False
  then obtain input out where paths: "ip = Some input" "op = Some out" by auto
  obtain thrown record' world' where
    pipe: "SimplifyPath env input out (prepare_skip_opts so sol) (cf \<noteq> 0) (si \<noteq> 0) thr (g_folding_record s, world s) =
             (thrown, record', world')"
    by (cases "SimplifyPath env input out (prepare_skip_opts so sol) (cf \<noteq> 0) (si \<noteq> 0) thr (g_folding_record s, world s)")
  show ?thesis
  proof (cases thrown)
    case None
    with pipe paths show ?thesis by (auto intro: that(3))
  next
    case (Some e)
    with pipe paths show ?thesis by (auto intro: that(2))
  qed
qed


text \<open>
  A boundary call hands the pipeline at most one configuration, built from its own
  arguments.
\<close>

lemma bytes_pipeline_calls:
  "pipeline_calls (snd (onnxsim_simplify_bytes env tid mb mbl so sol cf si thr ob obl s)) = pipeline_calls s \<or>
   pipeline_calls (snd (onnxsim_simplify_bytes env tid mb mbl so sol cf si thr ob obl s)) =
     pipeline_calls s @ [(prepare_skip_opts so sol, cf \<noteq> 0, si \<noteq> 0, thr)]"
  by (cases rule: bytes_paths [where mb = mb and ob = ob and obl = obl and env = env
        and mbl = mbl and so = so and sol = sol and cf = cf and si = si and thr = thr and s = s])
     (auto simp add: boundary_defs handle_exception_eq Let_def state_fields pipeline_calls_def List.map_filter_def)

lemma file_pipeline_calls:
  "pipeline_calls (snd (onnxsim_simplify_file env tid ip op so sol cf si thr s)) = pipeline_calls s \<or>
   pipeline_calls (snd (onnxsim_simplify_file env tid ip op so sol cf si thr s)) =
     pipeline_calls s @ [(prepare_skip_opts so sol, cf \<noteq> 0, si \<noteq> 0, thr)]"
  by (cases rule: file_paths [where ip = ip and op = op and env = env
        and so = so and sol = sol and cf = cf and si = si and thr = thr and s = s])
     (auto simp add: boundary_defs handle_exception_eq Let_def state_fields pipeline_calls_def List.map_filter_def)

text \<open>
  The calling thread's error message after a failing call does not depend on the message
  before it; a successful call, and a call on another thread, leave the message alone.
\<close>

lemma bytes_overwrites:
  "fst (onnxsim_simplify_bytes env tid mb mbl so sol cf si thr ob obl s) \<noteq> ONNXSIM_SUCCESS \<Longrightarrow>
   g_last_error (snd (onnxsim_simplify_bytes env tid mb mbl so sol cf si thr ob obl
       (s\<lparr>g_last_error := slots\<rparr>))) tid =
   g_last_error (snd (onnxsim_simplify_bytes env tid mb mbl so sol cf si thr ob obl s)) tid"
  by (cases rule: bytes_paths [where mb = mb and ob = ob and obl = obl and env = env
        and mbl = mbl and so = so and sol = sol and cf = cf and si = si and thr = thr and s = s])
     (auto simp add: boundary_defs handle_exception_eq Let_def state_fields)

lemma file_overwrites:
  "fst (onnxsim_simplify_file env tid ip op so sol cf si thr s) \<noteq> ONNXSIM_SUCCESS \<Longrightarrow>
   g_last_error (snd (onnxsim_simplify_file env tid ip op so sol cf si thr
       (s\<lparr>g_last_error := slots\<rparr>))) tid =
   g_last_error (snd (onnxsim_simplify_file env tid ip op so sol cf si thr s)) tid"
  by (cases rule: file_paths [where ip = ip and op = op and env = env
        and so = so and sol = sol and cf = cf and si = si and thr = thr and s = s])
     (auto simp add: boundary_defs handle_exception_eq Let_def state_fields)

lemma bytes_success_keeps:
  "fst (onnxsim_simplify_bytes env tid mb mbl so sol cf si thr ob obl s) = ONNXSIM_SUCCESS \<Longrightarrow>
   g_last_error (snd (onnxsim_simplify_bytes env tid mb mbl so sol cf si thr ob obl s)) = g_last_error s"
  by (cases rule: bytes_paths [where mb = mb and ob = ob and obl = obl and env = env
        and mbl = mbl and so = so and sol = sol and cf = cf and si = si and thr = thr and s = s])
     (auto simp add: boundary_defs handle_exception_eq Let_def state_fields)

lemma file_success_keeps:
  "fst (onnxsim_simplify_file env tid ip op so sol cf si thr s) = ONNXSIM_SUCCESS \<Longrightarrow>
   g_last_error (snd (onnxsim_simplify_file env tid ip op so sol cf si thr s)) = g_last_error s"
  by (cases rule: file_paths [where ip = ip and op = op and env = env
        and so = so and sol = sol and cf = cf and si = si and thr = thr and s = s])
     (auto simp add: boundary_defs handle_exception_eq Let_def state_fields)

lemma bytes_other_threads:
  "t \<noteq> tid \<Longrightarrow>
   g_last_error (snd (onnxsim_simplify_bytes env tid mb mbl so sol cf si thr ob obl s)) t = g_last_error s t"
  by (cases rule: bytes_paths [where mb = mb and ob = ob and obl = obl and env = env
        and mbl = mbl and so = so and sol = sol and cf = cf and si = si and thr = thr and s = s])
     (auto simp add: boundary_defs handle_exception_eq Let_def state_fields)

lemma file_other_threads:
  "t \<noteq> tid \<Longrightarrow>
   g_last_error (snd (onnxsim_simplify_file env tid ip op so sol cf si thr s)) t = g_last_error s t"
  by (cases rule: file_paths [where ip = ip and op = op and env = env
        and so = so and sol = sol and cf = cf and si = si and thr = thr and s = s])
     (auto simp add: boundary_defs handle_exception_eq Let_def state_fields)



text \<open>What it takes to run the boundary on the test doubles.\<close>

lemmas run_defs =
  boundary_defs note_call_def set_last_error_def scripted_env_def initial_state_def
  prepare_skip_opts_def skip_loop_eq pipeline_calls_def
  onnxsim_get_last_error_def Let_def sample_bytes_def sample_skip_array_def null_skip_array_def

text \<open>
  Claim C8. A call of \<^verbatim>\<open>onnxsim_simplify_bytes\<close> in which \<^verbatim>\<open>out_bytes\<close> or
  \<^verbatim>\<open>out_bytes_len\<close> is null returns \<^verbatim>\<open>ONNXSIM_ERROR_INVALID_ARGUMENT\<close> and stores an
  error message (the one about \<^verbatim>\<open>model_bytes\<close> when that is null as well, the one about
  the output pointers otherwise), also when \<^verbatim>\<open>model_bytes\<close> is a valid model. Nothing
  else of the state changes: no collaborator is called, so the bytes are not parsed and
  the pipeline does not run.
\<close>

theorem simplify_bytes_null_out:
  assumes "out_bytes = None \<or> out_bytes_len = None"
  shows
  "fst (onnxsim_simplify_bytes env tid model_bytes model_bytes_len skip_optimizers
          skip_optimizers_len constant_folding shape_inference tensor_size_threshold
          out_bytes out_bytes_len s) = ONNXSIM_ERROR_INVALID_ARGUMENT \<and>
   snd (onnxsim_simplify_bytes env tid model_bytes model_bytes_len skip_optimizers
          skip_optimizers_len constant_folding shape_inference tensor_size_threshold
          out_bytes out_bytes_len s) =
     set_last_error tid
       (if model_bytes = None then ''model_bytes cannot be NULL''
        else ''out_bytes or out_bytes_len cannot be NULL'') s \<and>
   calls (snd (onnxsim_simplify_bytes env tid model_bytes model_bytes_len skip_optimizers
          skip_optimizers_len constant_folding shape_inference tensor_size_threshold
          out_bytes out_bytes_len s)) = calls s"
  using assms
  by (cases model_bytes)
     (auto simp add: onnxsim_simplify_bytes_def onnxsim_simplify_bytes_try_def state_fields)

text \<open>A valid model, a null \<^verbatim>\<open>out_bytes\<close>, collaborators that would all succeed.\<close>

theorem simplify_bytes_null_out_witness:
  "fst (onnxsim_simplify_bytes
          (scripted_env (Inr (Some [8])) (Inr [8]) (Inr (Some [8, 1])) (Some 4096) None)
          0 (Some sample_bytes) 4 None 0 1 1 0 None (Some 16) initial_state) =
     ONNXSIM_ERROR_INVALID_ARGUMENT \<and>
   onnxsim_get_last_error 0 (snd (onnxsim_simplify_bytes
          (scripted_env (Inr (Some [8])) (Inr [8]) (Inr (Some [8, 1])) (Some 4096) None)
          0 (Some sample_bytes) 4 None 0 1 1 0 None (Some 16) initial_state)) =
     Some ''out_bytes or out_bytes_len cannot be NULL'' \<and>
   calls (snd (onnxsim_simplify_bytes
          (scripted_env (Inr (Some [8])) (Inr [8]) (Inr (Some [8, 1])) (Some 4096) None)
          0 (Some sample_bytes) 4 None 0 1 1 0 None (Some 16) initial_state)) = []"
  using simplify_bytes_null_out [where out_bytes = None and out_bytes_len = "Some 16"
      and model_bytes = "Some sample_bytes" and s = initial_state and tid = 0
      and env = "scripted_env (Inr (Some [8])) (Inr [8]) (Inr (Some [8, 1])) (Some 4096) None"
      and model_bytes_len = 4 and skip_optimizers = None and skip_optimizers_len = 0
      and constant_folding = 1 and shape_inference = 1 and tensor_size_threshold = 0]
  by (simp add: onnxsim_get_last_error_def set_last_error_def initial_state_def)

text \<open>
  Claim C4. With a non-null \<^verbatim>\<open>skip_optimizers\<close> and \<^verbatim>\<open>skip_optimizers_len = 0\<close>, the
  skip list built by either function is the absent value \<^verbatim>\<open>std::nullopt\<close>. The whole
  call, result and state, is the call with a null \<^verbatim>\<open>skip_optimizers\<close> (of any length),
  and a configuration handed to the pipeline by the call has no skip list.
\<close>

theorem zero_length_skip_array_is_absent:
  "prepare_skip_opts (Some array) 0 = None \<and>
   onnxsim_simplify_bytes env tid model_bytes model_bytes_len (Some array) 0
       constant_folding shape_inference tensor_size_threshold out_bytes out_bytes_len s =
   onnxsim_simplify_bytes env tid model_bytes model_bytes_len None skip_optimizers_len
       constant_folding shape_inference tensor_size_threshold out_bytes out_bytes_len s \<and>
   onnxsim_simplify_file env tid in_path out_path (Some array) 0
       constant_folding shape_inference tensor_size_threshold s =
   onnxsim_simplify_file env tid in_path out_path None skip_optimizers_len
       constant_folding shape_inference tensor_size_threshold s \<and>
   (pipeline_calls (snd (onnxsim_simplify_bytes env tid model_bytes model_bytes_len
       (Some array) 0 constant_folding shape_inference tensor_size_threshold
       out_bytes out_bytes_len s)) = pipeline_calls s \<or>
    pipeline_calls (snd (onnxsim_simplify_bytes env tid model_bytes model_bytes_len
       (Some array) 0 constant_folding shape_inference tensor_size_threshold
       out_bytes out_bytes_len s)) =
      pipeline_calls s @
        [(None, constant_folding \<noteq> 0, shape_inference \<noteq> 0, tensor_size_threshold)]) \<and>
   (pipeline_calls (snd (onnxsim_simplify_file env tid in_path out_path (Some array) 0
       constant_folding shape_inference tensor_size_threshold s)) = pipeline_calls s \<or>
    pipeline_calls (snd (onnxsim_simplify_file env tid in_path out_path (Some array) 0
       constant_folding shape_inference tensor_size_threshold s)) =
      pipeline_calls s @
        [(None, constant_folding \<noteq> 0, shape_inference \<noteq> 0, tensor_size_threshold)])"
proof -
  have absent: "prepare_skip_opts (Some array) 0 = None"
    and same: "prepare_skip_opts (Some array) 0 = prepare_skip_opts None skip_optimizers_len"
    by (simp_all add: prepare_skip_opts_def)
  have bytes: "onnxsim_simplify_bytes env tid model_bytes model_bytes_len (Some array) 0
       constant_folding shape_inference tensor_size_threshold out_bytes out_bytes_len s =
     onnxsim_simplify_bytes env tid model_bytes model_bytes_len None skip_optimizers_len
       constant_folding shape_inference tensor_size_threshold out_bytes out_bytes_len s"
    by (simp only: onnxsim_simplify_bytes_def onnxsim_simplify_bytes_try_def same)
  have paths: "onnxsim_simplify_file env tid in_path out_path (Some array) 0
       constant_folding shape_inference tensor_size_threshold s =
     onnxsim_simplify_file env tid in_path out_path None skip_optimizers_len
       constant_folding shape_inference tensor_size_threshold s"
    by (simp only: onnxsim_simplify_file_def onnxsim_simplify_file_try_def same)
  note handed =
    bytes_pipeline_calls [of env tid model_bytes model_bytes_len "Some array" 0
      constant_folding shape_inference tensor_size_threshold out_bytes out_bytes_len s]
    file_pipeline_calls [of env tid in_path out_path "Some array" 0
      constant_folding shape_inference tensor_size_threshold s]
  from absent bytes paths handed [unfolded absent] show ?thesis
    by (intro conjI)
qed

text \<open>Both functions reach the pipeline here, and hand it no skip list.\<close>

theorem zero_length_skip_array_is_absent_witness:
  "pipeline_calls (snd (onnxsim_simplify_bytes
      (scripted_env (Inr (Some [8])) (Inr [8]) (Inr (Some [8, 1])) (Some 4096) None)
      0 (Some sample_bytes) 4 (Some sample_skip_array) 0 1 0 1000 (Some 8) (Some 16)
      initial_state)) = [(None, True, False, 1000)] \<and>
   pipeline_calls (snd (onnxsim_simplify_file
      (scripted_env (Inr (Some [8])) (Inr [8]) (Inr (Some [8, 1])) (Some 4096) None)
      0 (Some ''in.onnx'') (Some ''out.onnx'') (Some sample_skip_array) 0 1 0 1000
      initial_state)) = [(None, True, False, 1000)]"
  using zero_length_skip_array_is_absent [where array = sample_skip_array
      and env = "scripted_env (Inr (Some [8])) (Inr [8]) (Inr (Some [8, 1])) (Some 4096) None"
      and s = initial_state and tid = 0 and model_bytes = "Some sample_bytes"
      and model_bytes_len = 4 and constant_folding = 1 and shape_inference = 0
      and tensor_size_threshold = 1000 and out_bytes = "Some 8" and out_bytes_len = "Some 16"
      and skip_optimizers_len = 0 and in_path = "Some ''in.onnx''"
      and out_path = "Some ''out.onnx''"]
  by (simp add: run_defs)



text \<open>
  Claim C5, as stated, fails: bytes that \<^verbatim>\<open>ParseFromString\<close> rejects, in a non-null
  buffer, with a null \<^verbatim>\<open>out_bytes\<close>. The output pointers are checked before the bytes
  are parsed, and the call returns \<^verbatim>\<open>ONNXSIM_ERROR_INVALID_ARGUMENT\<close>.
\<close>

theorem parse_failed_with_null_out_counterexample:
  "ParseFromString
      (scripted_env (Inr None) (Inr [8]) (Inr (Some [8, 1])) (Some 4096) None)
      (map sample_bytes [0..<unat (4 :: size_t)]) = Inr None \<and>
   fst (onnxsim_simplify_bytes
      (scripted_env (Inr None) (Inr [8]) (Inr (Some [8, 1])) (Some 4096) None)
      0 (Some sample_bytes) 4 None 0 1 1 0 None (Some 16) initial_state) =
     ONNXSIM_ERROR_INVALID_ARGUMENT \<and>
   fst (onnxsim_simplify_bytes
      (scripted_env (Inr None) (Inr [8]) (Inr (Some [8, 1])) (Some 4096) None)
      0 (Some sample_bytes) 4 None 0 1 1 0 None (Some 16) initial_state) \<noteq>
     ONNXSIM_ERROR_PARSE_FAILED"
  by (simp add: run_defs)

text \<open>
  Claim C5, amended. A call of \<^verbatim>\<open>onnxsim_simplify_bytes\<close> with a non-null
  \<^verbatim>\<open>model_bytes\<close>, non-null \<^verbatim>\<open>out_bytes\<close> and \<^verbatim>\<open>out_bytes_len\<close>, and bytes for which
  \<^verbatim>\<open>ParseFromString\<close> returns false, returns \<^verbatim>\<open>ONNXSIM_ERROR_PARSE_FAILED\<close> with the
  message \<^verbatim>\<open>Failed to parse model protobuf\<close>. The parser is the only collaborator
  called: the pipeline is not invoked and the folding record is unchanged.
\<close>

theorem simplify_bytes_parse_failed:
  assumes "model_bytes = Some bytes"
    and "out_bytes \<noteq> None" and "out_bytes_len \<noteq> None"
    and "ParseFromString env (map bytes [0..<unat model_bytes_len]) = Inr None"
  shows
  "fst (onnxsim_simplify_bytes env tid model_bytes model_bytes_len skip_optimizers
          skip_optimizers_len constant_folding shape_inference tensor_size_threshold
          out_bytes out_bytes_len s) = ONNXSIM_ERROR_PARSE_FAILED \<and>
   snd (onnxsim_simplify_bytes env tid model_bytes model_bytes_len skip_optimizers
          skip_optimizers_len constant_folding shape_inference tensor_size_threshold
          out_bytes out_bytes_len s) =
     set_last_error tid ''Failed to parse model protobuf''
       (note_call (CallParseFromString (map bytes [0..<unat model_bytes_len])) s) \<and>
   pipeline_calls (snd (onnxsim_simplify_bytes env tid model_bytes model_bytes_len
          skip_optimizers skip_optimizers_len constant_folding shape_inference
          tensor_size_threshold out_bytes out_bytes_len s)) = pipeline_calls s \<and>
   g_folding_record (snd (onnxsim_simplify_bytes env tid model_bytes model_bytes_len
          skip_optimizers skip_optimizers_len constant_folding shape_inference
          tensor_size_threshold out_bytes out_bytes_len s)) = g_folding_record s"
  using assms
  by (auto simp add: boundary_defs state_fields pipeline_calls_def List.map_filter_def)

text \<open>The same rejected bytes, with both output pointers given.\<close>

theorem simplify_bytes_parse_failed_witness:
  "fst (onnxsim_simplify_bytes
      (scripted_env (Inr None) (Inr [8]) (Inr (Some [8, 1])) (Some 4096) None)
      0 (Some sample_bytes) 4 None 0 1 1 0 (Some 8) (Some 16) initial_state) =
     ONNXSIM_ERROR_PARSE_FAILED \<and>
   onnxsim_get_last_error 0 (snd (onnxsim_simplify_bytes
      (scripted_env (Inr None) (Inr [8]) (Inr (Some [8, 1])) (Some 4096) None)
      0 (Some sample_bytes) 4 None 0 1 1 0 (Some 8) (Some 16) initial_state)) =
     Some ''Failed to parse model protobuf'' \<and>
   pipeline_calls (snd (onnxsim_simplify_bytes
      (scripted_env (Inr None) (Inr [8]) (Inr (Some [8, 1])) (Some 4096) None)
      0 (Some sample_bytes) 4 None 0 1 1 0 (Some 8) (Some 16) initial_state)) = []"
  using simplify_bytes_parse_failed [where model_bytes = "Some sample_bytes"
      and bytes = sample_bytes and out_bytes = "Some 8" and out_bytes_len = "Some 16"
      and env = "scripted_env (Inr None) (Inr [8]) (Inr (Some [8, 1])) (Some 4096) None"
      and model_bytes_len = 4 and tid = 0 and skip_optimizers = None
      and skip_optimizers_len = 0 and constant_folding = 1 and shape_inference = 1
      and tensor_size_threshold = 0 and s = initial_state]
  by (simp add: scripted_env_def initial_state_def onnxsim_get_last_error_def
      set_last_error_def note_call_def pipeline_calls_def)

text \<open>
  Claim C9. With a non-null \<^verbatim>\<open>skip_optimizers\<close> and a positive
  \<^verbatim>\<open>skip_optimizers_len\<close>, the skip list built by either function is present and holds
  exactly the entries of the array that are not null, in the array's order; when every
  entry is null it is the present, empty list, which is not the absent value. A
  configuration handed to the pipeline by the call carries that list.
\<close>

theorem null_skip_entries_dropped:
  assumes "0 < skip_optimizers_len"
  shows
  "prepare_skip_opts (Some array) skip_optimizers_len =
     Some (map the (filter (\<lambda>entry. entry \<noteq> None)
             (map array [0..<unat skip_optimizers_len]))) \<and>
   ((\<forall>i < unat skip_optimizers_len. array i = None) \<longrightarrow>
      prepare_skip_opts (Some array) skip_optimizers_len = Some []) \<and>
   (pipeline_calls (snd (onnxsim_simplify_bytes env tid model_bytes model_bytes_len
       (Some array) skip_optimizers_len constant_folding shape_inference
       tensor_size_threshold out_bytes out_bytes_len s)) = pipeline_calls s \<or>
    pipeline_calls (snd (onnxsim_simplify_bytes env tid model_bytes model_bytes_len
       (Some array) skip_optimizers_len constant_folding shape_inference
       tensor_size_threshold out_bytes out_bytes_len s)) =
      pipeline_calls s @
        [(Some (map the (filter (\<lambda>entry. entry \<noteq> None)
                  (map array [0..<unat skip_optimizers_len]))),
          constant_folding \<noteq> 0, shape_inference \<noteq> 0, tensor_size_threshold)]) \<and>
   (pipeline_calls (snd (onnxsim_simplify_file env tid in_path out_path (Some array)
       skip_optimizers_len constant_folding shape_inference tensor_size_threshold s)) =
      pipeline_calls s \<or>
    pipeline_calls (snd (onnxsim_simplify_file env tid in_path out_path (Some array)
       skip_optimizers_len constant_folding shape_inference tensor_size_threshold s)) =
      pipeline_calls s @
        [(Some (map the (filter (\<lambda>entry. entry \<noteq> None)
                  (map array [0..<unat skip_optimizers_len]))),
          constant_folding \<noteq> 0, shape_inference \<noteq> 0, tensor_size_threshold)])"
proof -
  have built: "prepare_skip_opts (Some array) skip_optimizers_len =
     Some (map the (filter (\<lambda>entry. entry \<noteq> None)
             (map array [0..<unat skip_optimizers_len])))"
    using assms by (simp add: prepare_skip_opts_def skip_loop_eq)
  have "filter (\<lambda>entry. entry \<noteq> None) (map array [0..<unat skip_optimizers_len]) = []"
    if "\<forall>i < unat skip_optimizers_len. array i = None"
    using that by (simp add: filter_empty_conv)
  with built have empty: "(\<forall>i < unat skip_optimizers_len. array i = None) \<longrightarrow>
      prepare_skip_opts (Some array) skip_optimizers_len = Some []"
    by simp
  note handed =
    bytes_pipeline_calls [of env tid model_bytes model_bytes_len "Some array"
      skip_optimizers_len constant_folding shape_inference tensor_size_threshold
      out_bytes out_bytes_len s]
    file_pipeline_calls [of env tid in_path out_path "Some array" skip_optimizers_len
      constant_folding shape_inference tensor_size_threshold s]
  from built empty handed [unfolded built] show ?thesis
    by (intro conjI)
qed

text \<open>
  An array of three entries whose middle entry is null, and one whose entries are all
  null; both functions reach the pipeline.
\<close>

theorem null_skip_entries_dropped_witness:
  "(0 :: size_t) < 3 \<and>
   prepare_skip_opts (Some sample_skip_array) 3 =
     Some [''fuse_bn_into_conv'', ''eliminate_nop_pad''] \<and>
   prepare_skip_opts (Some null_skip_array) 3 = Some [] \<and>
   pipeline_calls (snd (onnxsim_simplify_bytes
      (scripted_env (Inr (Some [8])) (Inr [8]) (Inr (Some [8, 1])) (Some 4096) None)
      0 (Some sample_bytes) 4 (Some sample_skip_array) 3 1 0 1000 (Some 8) (Some 16)
      initial_state)) =
     [(Some [''fuse_bn_into_conv'', ''eliminate_nop_pad''], True, False, 1000)] \<and>
   pipeline_calls (snd (onnxsim_simplify_file
      (scripted_env (Inr (Some [8])) (Inr [8]) (Inr (Some [8, 1])) (Some 4096) None)
      0 (Some ''in.onnx'') (Some ''out.onnx'') (Some null_skip_array) 3 1 0 1000
      initial_state)) = [(Some [], True, False, 1000)]"
proof -
  have three: "[0..<3] = [0, 1, 2 :: nat]"
    by code_simp
  note mixed = null_skip_entries_dropped [where array = sample_skip_array
      and skip_optimizers_len = 3
      and env = "scripted_env (Inr (Some [8])) (Inr [8]) (Inr (Some [8, 1])) (Some 4096) None"
      and s = initial_state and tid = 0 and model_bytes = "Some sample_bytes"
      and model_bytes_len = 4 and constant_folding = 1 and shape_inference = 0
      and tensor_size_threshold = 1000 and out_bytes = "Some 8" and out_bytes_len = "Some 16"
      and in_path = "Some ''in.onnx''" and out_path = "Some ''out.onnx''"]
  note nulls = null_skip_entries_dropped [where array = null_skip_array
      and skip_optimizers_len = 3
      and env = "scripted_env (Inr (Some [8])) (Inr [8]) (Inr (Some [8, 1])) (Some 4096) None"
      and s = initial_state and tid = 0 and model_bytes = "Some sample_bytes"
      and model_bytes_len = 4 and constant_folding = 1 and shape_inference = 0
      and tensor_size_threshold = 1000 and out_bytes = "Some 8" and out_bytes_len = "Some 16"
      and in_path = "Some ''in.onnx''" and out_path = "Some ''out.onnx''"]
  show ?thesis
    using mixed nulls by (simp add: run_defs three)
qed



text \<open>
  Claim C10. When \<^verbatim>\<open>onnxsim_simplify_bytes\<close> has parsed, simplified and serialized the
  model and \<^verbatim>\<open>malloc\<close> then returns null, the call returns \<^verbatim>\<open>ONNXSIM_ERROR_INTERNAL\<close>
  with the message \<^verbatim>\<open>Failed to allocate memory for output\<close>, and the caller's variables
  have been written all the same: \<^verbatim>\<open>*out_bytes_len\<close> holds the size of the serialized
  output and \<^verbatim>\<open>*out_bytes\<close> holds the null pointer.
\<close>

theorem allocation_failure_leaves_length_written:
  assumes "model_bytes = Some bytes"
    and "out_bytes = Some ptr_at" and "out_bytes_len = Some len_at"
    and "ParseFromString env (map bytes [0..<unat model_bytes_len]) = Inr (Some model)"
    and "Simplify env model (prepare_skip_opts skip_optimizers skip_optimizers_len)
           (constant_folding \<noteq> 0) (shape_inference \<noteq> 0) tensor_size_threshold
           (g_folding_record s, world s) = (Inr simplified, record', world')"
    and "SerializeToString env simplified = Inr (Some serialized)"
    and "malloc env (of_nat (length serialized)) (heap s) = None"
  shows
  "fst (onnxsim_simplify_bytes env tid model_bytes model_bytes_len skip_optimizers
          skip_optimizers_len constant_folding shape_inference tensor_size_threshold
          out_bytes out_bytes_len s) = ONNXSIM_ERROR_INTERNAL \<and>
   size_t_cells (snd (onnxsim_simplify_bytes env tid model_bytes model_bytes_len
          skip_optimizers skip_optimizers_len constant_folding shape_inference
          tensor_size_threshold out_bytes out_bytes_len s)) len_at =
     of_nat (length serialized) \<and>
   pointer_cells (snd (onnxsim_simplify_bytes env tid model_bytes model_bytes_len
          skip_optimizers skip_optimizers_len constant_folding shape_inference
          tensor_size_threshold out_bytes out_bytes_len s)) ptr_at = None \<and>
   g_last_error (snd (onnxsim_simplify_bytes env tid model_bytes model_bytes_len
          skip_optimizers skip_optimizers_len constant_folding shape_inference
          tensor_size_threshold out_bytes out_bytes_len s)) tid =
     ''Failed to allocate memory for output''"
  using assms
  by (simp add: boundary_defs state_fields Let_def)

text \<open>
  The caller's length variable is 0 before the call and 3, the size of the output that
  was never handed over, after it.
\<close>

theorem allocation_failure_leaves_length_written_witness:
  "size_t_cells initial_state 16 = 0 \<and>
   fst (onnxsim_simplify_bytes
      (scripted_env (Inr (Some [8])) (Inr [8]) (Inr (Some [8, 1, 1])) None None)
      0 (Some sample_bytes) 4 None 0 1 1 0 (Some 8) (Some 16) initial_state) =
     ONNXSIM_ERROR_INTERNAL \<and>
   size_t_cells (snd (onnxsim_simplify_bytes
      (scripted_env (Inr (Some [8])) (Inr [8]) (Inr (Some [8, 1, 1])) None None)
      0 (Some sample_bytes) 4 None 0 1 1 0 (Some 8) (Some 16) initial_state)) 16 = 3 \<and>
   onnxsim_get_last_error 0 (snd (onnxsim_simplify_bytes
      (scripted_env (Inr (Some [8])) (Inr [8]) (Inr (Some [8, 1, 1])) None None)
      0 (Some sample_bytes) 4 None 0 1 1 0 (Some 8) (Some 16) initial_state)) =
     Some ''Failed to allocate memory for output''"
  using allocation_failure_leaves_length_written [where model_bytes = "Some sample_bytes"
      and bytes = sample_bytes and out_bytes = "Some 8" and ptr_at = 8
      and out_bytes_len = "Some 16" and len_at = 16
      and env = "scripted_env (Inr (Some [8])) (Inr [8]) (Inr (Some [8, 1, 1])) None None"
      and model_bytes_len = 4 and model = "[8]" and simplified = "[8]"
      and serialized = "[8, 1, 1]" and skip_optimizers = None and skip_optimizers_len = 0
      and constant_folding = 1 and shape_inference = 1 and tensor_size_threshold = 0
      and s = initial_state and record' = FoldingRecord_new and world' = "()" and tid = 0]
  by (simp add: scripted_env_def initial_state_def onnxsim_get_last_error_def)



text \<open>
  With stores that never throw, the functions with stores that can throw are the
  functions above: what is proved of those holds of the source whenever the stores
  succeed.
\<close>

lemmas may_throw_defs =
  onnxsim_simplify_bytes_may_throw_def onnxsim_simplify_bytes_try_may_throw_def
  onnxsim_simplify_file_may_throw_def onnxsim_simplify_file_try_may_throw_def
  return_error_def set_last_error_may_throw_def

lemma handle_exception_may_throw_eq:
  "handle_exception_may_throw store tid e s =
     (case store (case e of StdException what \<Rightarrow> what | OtherException \<Rightarrow> ''Unknown error'') of
        None \<Rightarrow>
          (Inr ONNXSIM_ERROR_INTERNAL,
           set_last_error tid
             (case e of StdException what \<Rightarrow> what | OtherException \<Rightarrow> ''Unknown error'') s)
      | Some thrown \<Rightarrow> (Inl thrown, s))"
  by (cases e) (simp_all add: set_last_error_may_throw_def split: option.splits)

lemma bytes_may_throw_reliable:
  assumes "\<forall>text. store_try text = None" and "\<forall>text. store_catch text = None"
  shows "onnxsim_simplify_bytes_may_throw store_try store_catch env tid mb mbl so sol cf si thr
           ob obl s =
         (Inr (fst (onnxsim_simplify_bytes env tid mb mbl so sol cf si thr ob obl s)),
          snd (onnxsim_simplify_bytes env tid mb mbl so sol cf si thr ob obl s))"
  using assms
  by (cases rule: bytes_paths [where mb = mb and ob = ob and obl = obl and env = env
        and mbl = mbl and so = so and sol = sol and cf = cf and si = si and thr = thr and s = s])
     (auto simp add: may_throw_defs boundary_defs handle_exception_eq
        handle_exception_may_throw_eq Let_def state_fields)

lemma file_may_throw_reliable:
  assumes "\<forall>text. store_try text = None" and "\<forall>text. store_catch text = None"
  shows "onnxsim_simplify_file_may_throw store_try store_catch env tid ip op so sol cf si thr s =
         (Inr (fst (onnxsim_simplify_file env tid ip op so sol cf si thr s)),
          snd (onnxsim_simplify_file env tid ip op so sol cf si thr s))"
  using assms
  by (cases rule: file_paths [where ip = ip and op = op and env = env
        and so = so and sol = sol and cf = cf and si = si and thr = thr and s = s])
     (auto simp add: may_throw_defs boundary_defs handle_exception_eq
        handle_exception_may_throw_eq Let_def state_fields)












text \<open>
  Claim C7, as stated, fails: on one thread, a call that fails (null \<^verbatim>\<open>model_bytes\<close>),
  then a call that succeeds, then \<^verbatim>\<open>onnxsim_get_last_error\<close>. No call has failed since
  the successful one, and the message of the earlier failure is still reported: no path
  of the boundary clears \<^verbatim>\<open>g_last_error\<close>.
\<close>

theorem last_error_survives_success_counterexample:
  "fst (onnxsim_simplify_bytes
      (scripted_env (Inr (Some [8])) (Inr [8]) (Inr (Some [8, 1])) (Some 4096) None)
      0 None 0 None 0 1 1 0 (Some 8) (Some 16) initial_state) =
     ONNXSIM_ERROR_INVALID_ARGUMENT \<and>
   fst (onnxsim_simplify_bytes
      (scripted_env (Inr (Some [8])) (Inr [8]) (Inr (Some [8, 1])) (Some 4096) None)
      0 (Some sample_bytes) 4 None 0 1 1 0 (Some 8) (Some 16)
      (snd (onnxsim_simplify_bytes
         (scripted_env (Inr (Some [8])) (Inr [8]) (Inr (Some [8, 1])) (Some 4096) None)
         0 None 0 None 0 1 1 0 (Some 8) (Some 16) initial_state))) = ONNXSIM_SUCCESS \<and>
   onnxsim_get_last_error 0 (snd (onnxsim_simplify_bytes
      (scripted_env (Inr (Some [8])) (Inr [8]) (Inr (Some [8, 1])) (Some 4096) None)
      0 (Some sample_bytes) 4 None 0 1 1 0 (Some 8) (Some 16)
      (snd (onnxsim_simplify_bytes
         (scripted_env (Inr (Some [8])) (Inr [8]) (Inr (Some [8, 1])) (Some 4096) None)
         0 None 0 None 0 1 1 0 (Some 8) (Some 16) initial_state)))) =
     Some ''model_bytes cannot be NULL'' \<and>
   onnxsim_get_last_error 0 (snd (onnxsim_simplify_bytes
      (scripted_env (Inr (Some [8])) (Inr [8]) (Inr (Some [8, 1])) (Some 4096) None)
      0 (Some sample_bytes) 4 None 0 1 1 0 (Some 8) (Some 16)
      (snd (onnxsim_simplify_bytes
         (scripted_env (Inr (Some [8])) (Inr [8]) (Inr (Some [8, 1])) (Some 4096) None)
         0 None 0 None 0 1 1 0 (Some 8) (Some 16) initial_state)))) \<noteq> None"
  by (simp add: run_defs)

text \<open>
  Claim C7, amended. \<^verbatim>\<open>onnxsim_get_last_error\<close> returns the calling thread's stored
  message, or null when that string is empty, as it is for every thread of a process
  that has just started. A successful boundary call leaves the stored message of every
  thread as it was, and so does any boundary call made on another thread; a failing call
  replaces the calling thread's message, whatever it was. So what is reported is the
  message of the most recent failing call on the thread, also after later successes.
\<close>

theorem get_last_error_keeps_last_failure:
  fixes env :: "('m, 'w) collaborators" and s :: "'w ffi_state"
  shows
  "onnxsim_get_last_error t s =
     (if g_last_error s t = [] then None else Some (g_last_error s t)) \<and>
   onnxsim_get_last_error t initial_state = None \<and>
   (fst (onnxsim_simplify_bytes env tid model_bytes model_bytes_len skip_optimizers
           skip_optimizers_len constant_folding shape_inference tensor_size_threshold
           out_bytes out_bytes_len s) = ONNXSIM_SUCCESS \<or> t \<noteq> tid \<longrightarrow>
    onnxsim_get_last_error t (snd (onnxsim_simplify_bytes env tid model_bytes
           model_bytes_len skip_optimizers skip_optimizers_len constant_folding
           shape_inference tensor_size_threshold out_bytes out_bytes_len s)) =
    onnxsim_get_last_error t s) \<and>
   (fst (onnxsim_simplify_file env tid in_path out_path skip_optimizers skip_optimizers_len
           constant_folding shape_inference tensor_size_threshold s) = ONNXSIM_SUCCESS \<or>
    t \<noteq> tid \<longrightarrow>
    onnxsim_get_last_error t (snd (onnxsim_simplify_file env tid in_path out_path
           skip_optimizers skip_optimizers_len constant_folding shape_inference
           tensor_size_threshold s)) =
    onnxsim_get_last_error t s) \<and>
   (fst (onnxsim_simplify_bytes env tid model_bytes model_bytes_len skip_optimizers
           skip_optimizers_len constant_folding shape_inference tensor_size_threshold
           out_bytes out_bytes_len s) \<noteq> ONNXSIM_SUCCESS \<longrightarrow>
    onnxsim_get_last_error tid (snd (onnxsim_simplify_bytes env tid model_bytes
           model_bytes_len skip_optimizers skip_optimizers_len constant_folding
           shape_inference tensor_size_threshold out_bytes out_bytes_len
           (s\<lparr>g_last_error := slots\<rparr>))) =
    onnxsim_get_last_error tid (snd (onnxsim_simplify_bytes env tid model_bytes
           model_bytes_len skip_optimizers skip_optimizers_len constant_folding
           shape_inference tensor_size_threshold out_bytes out_bytes_len s))) \<and>
   (fst (onnxsim_simplify_file env tid in_path out_path skip_optimizers skip_optimizers_len
           constant_folding shape_inference tensor_size_threshold s) \<noteq> ONNXSIM_SUCCESS \<longrightarrow>
    onnxsim_get_last_error tid (snd (onnxsim_simplify_file env tid in_path out_path
           skip_optimizers skip_optimizers_len constant_folding shape_inference
           tensor_size_threshold (s\<lparr>g_last_error := slots\<rparr>))) =
    onnxsim_get_last_error tid (snd (onnxsim_simplify_file env tid in_path out_path
           skip_optimizers skip_optimizers_len constant_folding shape_inference
           tensor_size_threshold s)))"
  apply (intro conjI impI)
       apply (simp add: onnxsim_get_last_error_def)
      apply (simp add: onnxsim_get_last_error_def initial_state_def)
     apply (erule disjE)
      apply (simp add: onnxsim_get_last_error_def bytes_success_keeps)
     apply (simp add: onnxsim_get_last_error_def bytes_other_threads)
    apply (erule disjE)
     apply (simp add: onnxsim_get_last_error_def file_success_keeps)
    apply (simp add: onnxsim_get_last_error_def file_other_threads)
   apply (simp add: onnxsim_get_last_error_def bytes_overwrites)
  apply (simp add: onnxsim_get_last_error_def file_overwrites)
  done

text \<open>After the failed call, a successful call of either function reports its message.\<close>

theorem get_last_error_keeps_last_failure_witness:
  "onnxsim_get_last_error 0 initial_state = None \<and>
   onnxsim_get_last_error 0 (snd (onnxsim_simplify_bytes
      (scripted_env (Inr (Some [8])) (Inr [8]) (Inr (Some [8, 1])) (Some 4096) None)
      0 (Some sample_bytes) 4 None 0 1 1 0 (Some 8) (Some 16)
      (snd (onnxsim_simplify_bytes
         (scripted_env (Inr (Some [8])) (Inr [8]) (Inr (Some [8, 1])) (Some 4096) None)
         0 None 0 None 0 1 1 0 (Some 8) (Some 16) initial_state)))) =
     Some ''model_bytes cannot be NULL'' \<and>
   onnxsim_get_last_error 0 (snd (onnxsim_simplify_file
      (scripted_env (Inr (Some [8])) (Inr [8]) (Inr (Some [8, 1])) (Some 4096) None)
      0 (Some ''in.onnx'') (Some ''out.onnx'') None 0 1 1 0
      (snd (onnxsim_simplify_bytes
         (scripted_env (Inr (Some [8])) (Inr [8]) (Inr (Some [8, 1])) (Some 4096) None)
         0 None 0 None 0 1 1 0 (Some 8) (Some 16) initial_state)))) =
     Some ''model_bytes cannot be NULL''"
proof -
  let ?env = "scripted_env (Inr (Some [8])) (Inr [8]) (Inr (Some [8, 1])) (Some 4096) None"
  let ?failed = "snd (onnxsim_simplify_bytes ?env 0 None 0 None 0 1 1 0 (Some 8) (Some 16)
      initial_state)"
  have failed: "onnxsim_get_last_error 0 ?failed = Some ''model_bytes cannot be NULL''"
    by (simp add: run_defs)
  have ok_bytes: "fst (onnxsim_simplify_bytes ?env 0 (Some sample_bytes) 4 None 0 1 1 0
      (Some 8) (Some 16) ?failed) = ONNXSIM_SUCCESS"
    by (simp add: run_defs)
  have ok_file: "fst (onnxsim_simplify_file ?env 0 (Some ''in.onnx'') (Some ''out.onnx'')
      None 0 1 1 0 ?failed) = ONNXSIM_SUCCESS"
    by (simp add: run_defs)
  note kept = get_last_error_keeps_last_failure [where env = ?env and s = ?failed
      and t = 0 and tid = 0 and model_bytes = "Some sample_bytes" and model_bytes_len = 4
      and skip_optimizers = None and skip_optimizers_len = 0 and constant_folding = 1
      and shape_inference = 1 and tensor_size_threshold = 0 and out_bytes = "Some 8"
      and out_bytes_len = "Some 16" and in_path = "Some ''in.onnx''"
      and out_path = "Some ''out.onnx''" and slots = stale_messages]
  from kept failed ok_bytes ok_file show ?thesis
    by simp
qed


end
